theory Spec2Isabelle
  imports Main
begin

section \<open>The browser-side frame handle of libcef/browser/frame_host_impl.cc\<close>

text \<open>
  The theory embeds \<^verbatim>\<open>CefFrameHostImpl\<close>: the member fields become a record, every member
  function that changes them becomes a function on that record (or on the record together
  with the calls it makes on its collaborators), and the two loops over the queue of
  pending actions become recursive functions.

  Conventions.
  \<^item> \<^verbatim>\<open>int64\<close> and \<^verbatim>\<open>int\<close> values are only stored and compared in this file, never
    computed with, so they are HOL integers.
  \<^item> \<^verbatim>\<open>DCHECK\<close>, \<^verbatim>\<open>DCHECK_EQ\<close>, \<^verbatim>\<open>DCHECK_GT\<close> and \<^verbatim>\<open>CEF_REQUIRE_UIT\<close> are debug
    assertions that compile to nothing in a release build; the model follows the release
    build and no example below violates one. \<^verbatim>\<open>CHECK\<close> is fatal in every build and is a
    \<open>None\<close> result.
  \<^item> \<^verbatim>\<open>CEF_CURRENTLY_ON_UIT()\<close> is the boolean argument \<open>on_uit\<close> of the functions that
    test it.
\<close>

subsection \<open>Collaborators\<close>

type_synonym GURL = string

text \<open>
  What this file reads off a \<^verbatim>\<open>content::RenderFrameHost\<close>: \<^verbatim>\<open>GetProcess()->GetID()\<close>,
  \<^verbatim>\<open>GetRoutingID()\<close>, \<^verbatim>\<open>GetLastCommittedURL().spec()\<close>, \<^verbatim>\<open>GetFrameName()\<close>,
  \<^verbatim>\<open>GetParent()\<close>, whether \<^verbatim>\<open>GetRemoteInterfaces()\<close> is non-null, and the unique name of
  the node that \<^verbatim>\<open>FrameTreeNode::GloballyFindByID(GetFrameTreeNodeId())\<close> finds, if any.
\<close>

datatype RenderFrameHost = RenderFrameHost
  (GetProcessID: int)
  (GetRoutingID: int)
  (GetLastCommittedURL: GURL)
  (GetFrameName: string)
  (GetParent: "RenderFrameHost option")
  (GetRemoteInterfaces: bool)
  (FrameTreeNode_unique_name: "string option")

text \<open>\<^verbatim>\<open>CefBrowserInfo::browser()\<close> is the live browser, or null.\<close>

datatype CefBrowserInfo = CefBrowserInfo (browser: "nat option")

datatype ReferrerPolicy = ReferrerPolicy_kDefault | ReferrerPolicy_other nat

record Referrer =
  referrer_url :: GURL
  referrer_policy :: ReferrerPolicy

text \<open>The default-constructed \<^verbatim>\<open>content::Referrer()\<close>.\<close>

definition Referrer_default :: Referrer where
  "Referrer_default = \<lparr>referrer_url = [], referrer_policy = ReferrerPolicy_kDefault\<rparr>"

datatype PageTransitionBit =
  PAGE_TRANSITION_TYPED | PAGE_TRANSITION_FROM_ADDRESS_BAR | PAGE_TRANSITION_bit nat

type_synonym PageTransition = "PageTransitionBit list"

definition kPageTransitionExplicit :: PageTransition where
  "kPageTransitionExplicit = [PAGE_TRANSITION_TYPED, PAGE_TRANSITION_FROM_ADDRESS_BAR]"

text \<open>The fields of \<^verbatim>\<open>cef::mojom::RequestParams\<close> that this file writes.\<close>

record RequestParams =
  params_url :: GURL
  params_referrer :: Referrer
  params_headers :: string

datatype WindowOpenDisposition = CURRENT_TAB

record OpenURLParams =
  open_url :: GURL
  open_referrer :: Referrer
  open_disposition :: WindowOpenDisposition
  open_transition :: PageTransition
  open_is_renderer_initiated :: bool
  open_extra_headers :: string

datatype FocusSource = FOCUS_SOURCE_NAVIGATION

text \<open>The calls this file makes on the owning \<^verbatim>\<open>CefBrowserHostBase\<close>.\<close>

datatype browser_call =
  LoadMainFrameURL OpenURLParams
| OnSetFocus FocusSource
| OnDidFinishLoad GURL int

datatype response_callback = ViewTextCallback | StringVisitCallback nat

text \<open>
  A \<^verbatim>\<open>RenderFrameAction\<close> is a closure over a \<^verbatim>\<open>cef::mojom::RenderFrame\<close>; every one
  built in this file makes exactly one call on it when run, so an action is represented by
  that call and its bound arguments.
\<close>

datatype RenderFrameAction =
  render_frame_SendCommand string
| render_frame_SendCommandWithResponse string response_callback
| render_frame_SendJavaScript string string int
| render_frame_LoadRequest RequestParams
| render_frame_SendMessage string "string list"
| render_frame_MoveOrResizeStarted
| render_frame_DidStopLoading

text \<open>
  A bound \<^verbatim>\<open>mojo::Remote<cef::mojom::RenderFrame>\<close> is identified by the process and
  routing ids of the frame host whose interface provider connected it.
\<close>

type_synonym RenderFrameRemote = "int \<times> int"

record CefProcessMessage =
  message_IsValid :: bool
  message_GetName :: string
  message_TakeArgumentList :: "string list"

text \<open>
  The functions of \<^verbatim>\<open>frame_util\<close> and \<^verbatim>\<open>url_util\<close> that this file calls are not part of
  it; they are parameters of the model. \<^verbatim>\<open>FixupGURL\<close> returns \<open>None\<close> where the C++
  function returns false, and the fixed URL otherwise.
\<close>

record collaborators =
  frame_util_MakeFrameId :: "int \<Rightarrow> int \<Rightarrow> int"
  url_util_MakeGURL :: "string \<Rightarrow> bool \<Rightarrow> GURL"
  url_util_FixupGURL :: "GURL \<Rightarrow> GURL option"

subsection \<open>The handle and its surroundings\<close>

record CefFrameHostImpl =
  is_main_frame :: bool
  frame_id :: int
  browser_info :: "CefBrowserInfo option"
  is_focused :: bool
  url :: string
  name :: string
  parent_frame_id :: int
  render_frame :: "RenderFrameRemote option"
  render_frame_host :: "RenderFrameHost option"
  is_attached :: bool
  queued_actions :: "RenderFrameAction list"

text \<open>
  The handle together with what it has done to its surroundings: the actions run against a
  bound peer connection, the calls made on the owning browser, and the
  \<^verbatim>\<open>SendToRenderFrame\<close> calls re-posted to the UI thread by \<^verbatim>\<open>CEF_POST_TASK\<close> that have
  not run yet.
\<close>

record world =
  frame :: CefFrameHostImpl
  peer_calls :: "(RenderFrameRemote \<times> RenderFrameAction) list"
  browser_calls :: "browser_call list"
  ui_tasks :: "RenderFrameAction list"

definition kMainFrameId :: int where "kMainFrameId = -1"
definition kFocusedFrameId :: int where "kFocusedFrameId = -2"
definition kUnspecifiedFrameId :: int where "kUnspecifiedFrameId = -3"
definition kInvalidFrameId :: int where "kInvalidFrameId = -4"

definition MakeFrameId :: "collaborators \<Rightarrow> RenderFrameHost \<Rightarrow> int" where
  "MakeFrameId env host = frame_util_MakeFrameId env (GetProcessID host) (GetRoutingID host)"

subsection \<open>Construction and binding\<close>

text \<open>
  The pre-binding constructor. The members it does not mention take their in-class
  initial values: empty strings, an unbound peer connection, no frame host, not attached,
  an empty queue.
\<close>

definition CefFrameHostImpl_new :: "CefBrowserInfo \<Rightarrow> bool \<Rightarrow> int \<Rightarrow> CefFrameHostImpl" where
  "CefFrameHostImpl_new info is_main parent_id =
     \<lparr>is_main_frame = is_main,
      frame_id = kInvalidFrameId,
      browser_info = Some info,
      is_focused = is_main,
      url = [],
      name = [],
      parent_frame_id = parent_id,
      render_frame = None,
      render_frame_host = None,
      is_attached = False,
      queued_actions = []\<rparr>"

definition SetRenderFrameHost ::
  "collaborators \<Rightarrow> RenderFrameHost \<Rightarrow> CefFrameHostImpl \<Rightarrow> CefFrameHostImpl option" where
  "SetRenderFrameHost env host h =
     (if browser_info h = None then None
      else Some (h\<lparr>render_frame := None,
                   render_frame_host := Some host,
                   frame_id := MakeFrameId env host,
                   url := GetLastCommittedURL host,
                   name := GetFrameName host\<rparr>))"

text \<open>
  The constructor from an existing frame host; \<^verbatim>\<open>SetRenderFrameHost\<close> assigns the
  \<open>frame_id\<close> that the initialiser list leaves out.
\<close>

definition CefFrameHostImpl_new_bound ::
  "collaborators \<Rightarrow> CefBrowserInfo \<Rightarrow> RenderFrameHost \<Rightarrow> CefFrameHostImpl option" where
  "CefFrameHostImpl_new_bound env info host =
     SetRenderFrameHost env host
       (CefFrameHostImpl_new info (GetParent host = None)
          (case GetParent host of None \<Rightarrow> kInvalidFrameId
           | Some p \<Rightarrow> MakeFrameId env p))"

subsection \<open>Getters\<close>

definition GetBrowserHostBase :: "CefFrameHostImpl \<Rightarrow> nat option" where
  "GetBrowserHostBase h = (case browser_info h of Some info \<Rightarrow> browser info | None \<Rightarrow> None)"

definition IsValid :: "CefFrameHostImpl \<Rightarrow> bool" where
  "IsValid h = (GetBrowserHostBase h \<noteq> None)"

definition IsMain :: "CefFrameHostImpl \<Rightarrow> bool" where
  "IsMain h = is_main_frame h"

definition IsFocused :: "CefFrameHostImpl \<Rightarrow> bool" where
  "IsFocused h = is_focused h"

definition GetName :: "CefFrameHostImpl \<Rightarrow> string" where
  "GetName h = name h"

definition GetIdentifier :: "CefFrameHostImpl \<Rightarrow> int" where
  "GetIdentifier h = frame_id h"

definition GetURL :: "CefFrameHostImpl \<Rightarrow> string" where
  "GetURL h = url h"

definition GetFrameId :: "CefFrameHostImpl \<Rightarrow> int" where
  "GetFrameId h = (if is_main_frame h then kMainFrameId else frame_id h)"

definition GetRenderFrameHost :: "CefFrameHostImpl \<Rightarrow> RenderFrameHost option" where
  "GetRenderFrameHost h = render_frame_host h"

subsection \<open>Snapshot updates\<close>

definition SetFocused :: "bool \<Rightarrow> CefFrameHostImpl \<Rightarrow> CefFrameHostImpl" where
  "SetFocused focused h = h\<lparr>is_focused := focused\<rparr>"

text \<open>
  \<^verbatim>\<open>RefreshAttributes\<close> of a handle that is not the main frame dereferences the parent of
  its frame host; with no parent that is a null dereference, the \<open>None\<close> result.
\<close>

definition RefreshAttributes ::
  "collaborators \<Rightarrow> CefFrameHostImpl \<Rightarrow> CefFrameHostImpl option" where
  "RefreshAttributes env h =
     (case render_frame_host h of
        None \<Rightarrow> Some h
      | Some host \<Rightarrow>
          (let h1 = h\<lparr>url := GetLastCommittedURL host, name := GetFrameName host\<rparr>;
               h2 = (if name h1 = []
                     then (case FrameTreeNode_unique_name host of
                             Some unique \<Rightarrow> h1\<lparr>name := unique\<rparr>
                           | None \<Rightarrow> h1)
                     else h1)
           in if \<not> is_main_frame h2
              then (case GetParent host of
                      Some p \<Rightarrow> Some (h2\<lparr>parent_frame_id := MakeFrameId env p\<rparr>)
                    | None \<Rightarrow> None)
              else Some h2))"

subsection \<open>The dispatch core\<close>

text \<open>
  \<^verbatim>\<open>GetRenderFrame\<close> binds the peer connection on first use, when a frame host is set and
  has an interface provider; the connection it returns is \<open>render_frame\<close> of the result.
\<close>

definition GetRenderFrame :: "CefFrameHostImpl \<Rightarrow> CefFrameHostImpl" where
  "GetRenderFrame h =
     (case render_frame_host h of
        Some host \<Rightarrow>
          (if render_frame h = None \<and> GetRemoteInterfaces host
           then h\<lparr>render_frame := Some (GetProcessID host, GetRoutingID host)\<rparr>
           else h)
      | None \<Rightarrow> h)"

definition SendToRenderFrame :: "bool \<Rightarrow> RenderFrameAction \<Rightarrow> world \<Rightarrow> world" where
  "SendToRenderFrame on_uit action w =
     (if \<not> on_uit then w\<lparr>ui_tasks := ui_tasks w @ [action]\<rparr>
      else if render_frame_host (frame w) = None then w
      else if \<not> is_attached (frame w)
      then w\<lparr>frame := (frame w)\<lparr>queued_actions := queued_actions (frame w) @ [action]\<rparr>\<rparr>
      else (let h = GetRenderFrame (frame w)
            in case render_frame h of
                 None \<Rightarrow> w\<lparr>frame := h\<rparr>
               | Some remote \<Rightarrow> w\<lparr>frame := h, peer_calls := peer_calls w @ [(remote, action)]\<rparr>))"

text \<open>
  The loop of \<^verbatim>\<open>FrameAttached\<close>: while the queue is not empty, run its front against the
  connection if that is bound, and pop it.
\<close>

function drain_queued_actions :: "RenderFrameRemote option \<Rightarrow> world \<Rightarrow> world" where
  "drain_queued_actions remote w =
     (if queued_actions (frame w) = [] then w
      else drain_queued_actions remote
             ((case remote of
                 Some r \<Rightarrow> w\<lparr>peer_calls := peer_calls w @ [(r, hd (queued_actions (frame w)))]\<rparr>
               | None \<Rightarrow> w)
              \<lparr>frame := (frame w)\<lparr>queued_actions := tl (queued_actions (frame w))\<rparr>\<rparr>))"
  by pat_completeness auto
termination
  by (relation "measure (\<lambda>(remote, w). length (queued_actions (frame w)))")
     (auto split: option.splits)

declare drain_queued_actions.simps [simp del]

definition FrameAttached :: "world \<Rightarrow> world" where
  "FrameAttached w =
     (if \<not> is_attached (frame w)
      then (let h = GetRenderFrame ((frame w)\<lparr>is_attached := True\<rparr>)
            in drain_queued_actions (render_frame h) (w\<lparr>frame := h\<rparr>))
      else w)"

text \<open>The loop of \<^verbatim>\<open>Detach\<close>: pop until the queue is empty.\<close>

function pop_queued_actions :: "CefFrameHostImpl \<Rightarrow> CefFrameHostImpl" where
  "pop_queued_actions h =
     (if queued_actions h = [] then h
      else pop_queued_actions (h\<lparr>queued_actions := tl (queued_actions h)\<rparr>))"
  by pat_completeness auto
termination
  by (relation "measure (\<lambda>h. length (queued_actions h))") auto

declare pop_queued_actions.simps [simp del]

definition Detach :: "CefFrameHostImpl \<Rightarrow> CefFrameHostImpl" where
  "Detach h =
     (pop_queued_actions (h\<lparr>browser_info := None\<rparr>))
       \<lparr>render_frame := None, render_frame_host := None\<rparr>"

subsection \<open>Operations built on the dispatch core\<close>

definition SendCommand :: "bool \<Rightarrow> string \<Rightarrow> world \<Rightarrow> world" where
  "SendCommand on_uit command w = SendToRenderFrame on_uit (render_frame_SendCommand command) w"

definition SendCommandWithResponse ::
  "bool \<Rightarrow> string \<Rightarrow> response_callback \<Rightarrow> world \<Rightarrow> world" where
  "SendCommandWithResponse on_uit command response w =
     SendToRenderFrame on_uit (render_frame_SendCommandWithResponse command response) w"

definition Undo :: "bool \<Rightarrow> world \<Rightarrow> world" where
  "Undo on_uit w = SendCommand on_uit ''Undo'' w"

definition Redo :: "bool \<Rightarrow> world \<Rightarrow> world" where
  "Redo on_uit w = SendCommand on_uit ''Redo'' w"

definition Cut :: "bool \<Rightarrow> world \<Rightarrow> world" where
  "Cut on_uit w = SendCommand on_uit ''Cut'' w"

definition Copy :: "bool \<Rightarrow> world \<Rightarrow> world" where
  "Copy on_uit w = SendCommand on_uit ''Copy'' w"

definition Paste :: "bool \<Rightarrow> world \<Rightarrow> world" where
  "Paste on_uit w = SendCommand on_uit ''Paste'' w"

definition Delete :: "bool \<Rightarrow> world \<Rightarrow> world" where
  "Delete on_uit w = SendCommand on_uit ''Delete'' w"

definition SelectAll :: "bool \<Rightarrow> world \<Rightarrow> world" where
  "SelectAll on_uit w = SendCommand on_uit ''SelectAll'' w"

definition ViewSource :: "bool \<Rightarrow> world \<Rightarrow> world" where
  "ViewSource on_uit w = SendCommandWithResponse on_uit ''GetSource'' ViewTextCallback w"

definition GetSource :: "bool \<Rightarrow> nat \<Rightarrow> world \<Rightarrow> world" where
  "GetSource on_uit visitor w =
     SendCommandWithResponse on_uit ''GetSource'' (StringVisitCallback visitor) w"

definition GetText :: "bool \<Rightarrow> nat \<Rightarrow> world \<Rightarrow> world" where
  "GetText on_uit visitor w =
     SendCommandWithResponse on_uit ''GetText'' (StringVisitCallback visitor) w"

definition NotifyMoveOrResizeStarted :: "bool \<Rightarrow> world \<Rightarrow> world" where
  "NotifyMoveOrResizeStarted on_uit w = SendToRenderFrame on_uit render_frame_MoveOrResizeStarted w"

text \<open>
  A null \<^verbatim>\<open>CefRefPtr<CefProcessMessage>\<close> is \<open>None\<close>. The target process is left out: it
  is only read by a \<^verbatim>\<open>DCHECK_EQ\<close>.
\<close>

definition SendProcessMessage :: "bool \<Rightarrow> CefProcessMessage option \<Rightarrow> world \<Rightarrow> world" where
  "SendProcessMessage on_uit message w =
     (case message of
        None \<Rightarrow> w
      | Some m \<Rightarrow>
          (if \<not> message_IsValid m then w
           else SendToRenderFrame on_uit
                  (render_frame_SendMessage (message_GetName m) (message_TakeArgumentList m)) w))"

definition SendJavaScript :: "bool \<Rightarrow> string \<Rightarrow> string \<Rightarrow> int \<Rightarrow> world \<Rightarrow> world" where
  "SendJavaScript on_uit jsCode scriptUrl startLine w =
     (if jsCode = [] then w
      else (let startLine' = (if startLine \<le> 0 then 1 else startLine)
            in SendToRenderFrame on_uit (render_frame_SendJavaScript jsCode scriptUrl startLine') w))"

definition ExecuteJavaScript :: "bool \<Rightarrow> string \<Rightarrow> string \<Rightarrow> int \<Rightarrow> world \<Rightarrow> world" where
  "ExecuteJavaScript on_uit jsCode scriptUrl startLine w =
     SendJavaScript on_uit jsCode scriptUrl startLine w"

text \<open>\<^verbatim>\<open>LoadRequest(cef::mojom::RequestParamsPtr)\<close>.\<close>

definition LoadRequest :: "bool \<Rightarrow> collaborators \<Rightarrow> RequestParams \<Rightarrow> world \<Rightarrow> world" where
  "LoadRequest on_uit env params w =
     (case url_util_FixupGURL env (params_url params) of
        None \<Rightarrow> w
      | Some fixed \<Rightarrow>
          (let w1 = SendToRenderFrame on_uit
                      (render_frame_LoadRequest (params\<lparr>params_url := fixed\<rparr>)) w
           in case GetBrowserHostBase (frame w1) of
                Some b \<Rightarrow> w1\<lparr>browser_calls := browser_calls w1 @ [OnSetFocus FOCUS_SOURCE_NAVIGATION]\<rparr>
              | None \<Rightarrow> w1))"

text \<open>
  \<^verbatim>\<open>LoadRequest(CefRefPtr<CefRequest>)\<close>: the argument is the parameter block that
  \<^verbatim>\<open>CefRequestImpl::Get\<close> fills from the request.
\<close>

definition LoadRequest_CefRequest ::
  "bool \<Rightarrow> collaborators \<Rightarrow> RequestParams \<Rightarrow> world \<Rightarrow> world" where
  "LoadRequest_CefRequest on_uit env request_params w = LoadRequest on_uit env request_params w"

definition LoadURLWithExtras ::
  "bool \<Rightarrow> collaborators \<Rightarrow> string \<Rightarrow> Referrer \<Rightarrow> PageTransition \<Rightarrow> string \<Rightarrow> world \<Rightarrow> world"
  where
  "LoadURLWithExtras on_uit env url_arg referrer transition extra_headers w =
     (let id = GetFrameId (frame w)
      in if id < kMainFrameId then w
         else (let gurl = url_util_MakeGURL env url_arg False
               in if id = kMainFrameId
                  then (case GetBrowserHostBase (frame w) of
                          Some b \<Rightarrow>
                            w\<lparr>browser_calls := browser_calls w @
                               [LoadMainFrameURL
                                  \<lparr>open_url = gurl,
                                   open_referrer = referrer,
                                   open_disposition = CURRENT_TAB,
                                   open_transition = transition,
                                   open_is_renderer_initiated = False,
                                   open_extra_headers = extra_headers\<rparr>]\<rparr>
                        | None \<Rightarrow> w)
                  else LoadRequest on_uit env
                         \<lparr>params_url = gurl,
                          params_referrer = referrer,
                          params_headers = extra_headers\<rparr> w))"

definition LoadURL :: "bool \<Rightarrow> collaborators \<Rightarrow> string \<Rightarrow> world \<Rightarrow> world" where
  "LoadURL on_uit env url_arg w =
     LoadURLWithExtras on_uit env url_arg Referrer_default kPageTransitionExplicit [] w"

definition MaybeSendDidStopLoading :: "bool \<Rightarrow> world \<Rightarrow> world" where
  "MaybeSendDidStopLoading on_uit w =
     (case GetRenderFrameHost (frame w) of
        None \<Rightarrow> w
      | Some rfh \<Rightarrow>
          (case GetParent rfh of
             Some rfh_parent \<Rightarrow>
               (if GetProcessID rfh_parent = GetProcessID rfh then w
                else SendToRenderFrame on_uit render_frame_DidStopLoading w)
           | None \<Rightarrow> SendToRenderFrame on_uit render_frame_DidStopLoading w))"

subsection \<open>Notifications from the renderer\<close>

definition DidFinishFrameLoad :: "GURL \<Rightarrow> int \<Rightarrow> world \<Rightarrow> world" where
  "DidFinishFrameLoad validated_url http_status_code w =
     (case GetBrowserHostBase (frame w) of
        Some b \<Rightarrow> w\<lparr>browser_calls := browser_calls w @ [OnDidFinishLoad validated_url http_status_code]\<rparr>
      | None \<Rightarrow> w)"

subsection \<open>The life of a handle\<close>

text \<open>
  Modelled from the spec: the UI thread's task runner behind \<^verbatim>\<open>CEF_POST_TASK\<close>, which is
  not part of this file. A call that \<^verbatim>\<open>SendToRenderFrame\<close> re-posted is run on the UI
  thread later, the oldest one first.
\<close>

definition RunPostedTask :: "world \<Rightarrow> world" where
  "RunPostedTask w =
     (case ui_tasks w of
        [] \<Rightarrow> w
      | action # rest \<Rightarrow> SendToRenderFrame True action (w\<lparr>ui_tasks := rest\<rparr>))"

text \<open>
  The calls that the embedder, the browser and the renderer make on a handle. The editing
  commands, the content retrieval calls, \<^verbatim>\<open>ExecuteJavaScript\<close>, \<^verbatim>\<open>LoadURL\<close> and
  \<^verbatim>\<open>LoadRequest(CefRefPtr<CefRequest>)\<close> are instances of the calls listed. The member
  functions left out (\<^verbatim>\<open>CreateURLRequest\<close>, \<^verbatim>\<open>SendMessage\<close>,
  \<^verbatim>\<open>UpdateDraggableRegions\<close>, \<^verbatim>\<open>GetParent\<close>, the test helper) write no member field and
  make no call on the peer connection.
\<close>

datatype operation =
  op_SetRenderFrameHost RenderFrameHost
| op_SetFocused bool
| op_RefreshAttributes
| op_SendToRenderFrame bool RenderFrameAction
| op_SendCommand bool string
| op_SendCommandWithResponse bool string response_callback
| op_NotifyMoveOrResizeStarted bool
| op_SendProcessMessage bool "CefProcessMessage option"
| op_SendJavaScript bool string string int
| op_LoadRequest bool RequestParams
| op_LoadURLWithExtras bool string Referrer PageTransition string
| op_MaybeSendDidStopLoading bool
| op_FrameAttached
| op_Detach
| op_DidFinishFrameLoad GURL int
| op_RunPostedTask

definition on_frame :: "world \<Rightarrow> CefFrameHostImpl option \<Rightarrow> world option" where
  "on_frame w r = (case r of None \<Rightarrow> None | Some h \<Rightarrow> Some (w\<lparr>frame := h\<rparr>))"

fun exec :: "collaborators \<Rightarrow> operation \<Rightarrow> world \<Rightarrow> world option" where
  "exec env (op_SetRenderFrameHost host) w = on_frame w (SetRenderFrameHost env host (frame w))"
| "exec env (op_SetFocused focused) w = Some (w\<lparr>frame := SetFocused focused (frame w)\<rparr>)"
| "exec env op_RefreshAttributes w = on_frame w (RefreshAttributes env (frame w))"
| "exec env (op_SendToRenderFrame on_uit action) w = Some (SendToRenderFrame on_uit action w)"
| "exec env (op_SendCommand on_uit command) w = Some (SendCommand on_uit command w)"
| "exec env (op_SendCommandWithResponse on_uit command response) w =
     Some (SendCommandWithResponse on_uit command response w)"
| "exec env (op_NotifyMoveOrResizeStarted on_uit) w = Some (NotifyMoveOrResizeStarted on_uit w)"
| "exec env (op_SendProcessMessage on_uit message) w = Some (SendProcessMessage on_uit message w)"
| "exec env (op_SendJavaScript on_uit jsCode scriptUrl startLine) w =
     Some (SendJavaScript on_uit jsCode scriptUrl startLine w)"
| "exec env (op_LoadRequest on_uit params) w = Some (LoadRequest on_uit env params w)"
| "exec env (op_LoadURLWithExtras on_uit url_arg referrer transition extra_headers) w =
     Some (LoadURLWithExtras on_uit env url_arg referrer transition extra_headers w)"
| "exec env (op_MaybeSendDidStopLoading on_uit) w = Some (MaybeSendDidStopLoading on_uit w)"
| "exec env op_FrameAttached w = Some (FrameAttached w)"
| "exec env op_Detach w = Some (w\<lparr>frame := Detach (frame w)\<rparr>)"
| "exec env (op_DidFinishFrameLoad validated_url http_status_code) w =
     Some (DidFinishFrameLoad validated_url http_status_code w)"
| "exec env op_RunPostedTask w = Some (RunPostedTask w)"

text \<open>A sequence of calls stops at the first fatal one.\<close>

fun run :: "collaborators \<Rightarrow> operation list \<Rightarrow> world \<Rightarrow> world option" where
  "run env [] w = Some w"
| "run env (x # xs) w = (case exec env x w of None \<Rightarrow> None | Some w' \<Rightarrow> run env xs w')"

text \<open>The operations that go to the peer: \<^verbatim>\<open>SendToRenderFrame\<close> and what is built on it.\<close>

fun peer_directed :: "operation \<Rightarrow> bool" where
  "peer_directed (op_SendToRenderFrame on_uit action) = True"
| "peer_directed (op_SendCommand on_uit command) = True"
| "peer_directed (op_SendCommandWithResponse on_uit command response) = True"
| "peer_directed (op_NotifyMoveOrResizeStarted on_uit) = True"
| "peer_directed (op_SendProcessMessage on_uit message) = True"
| "peer_directed (op_SendJavaScript on_uit jsCode scriptUrl startLine) = True"
| "peer_directed (op_LoadRequest on_uit params) = True"
| "peer_directed (op_LoadURLWithExtras on_uit url_arg referrer transition extra_headers) = True"
| "peer_directed (op_MaybeSendDidStopLoading on_uit) = True"
| "peer_directed (op_RunPostedTask) = True"
| "peer_directed other = False"

text \<open>What \<^verbatim>\<open>Detach\<close> leaves of the handle's links: no browser, no frame host, no peer, no queue.\<close>

definition detached :: "CefFrameHostImpl \<Rightarrow> bool" where
  "detached h =
     (browser_info h = None \<and> render_frame_host h = None \<and> render_frame h = None
      \<and> queued_actions h = [])"

text \<open>A fresh handle has made no call yet.\<close>

definition new_world :: "CefFrameHostImpl \<Rightarrow> world" where
  "new_world h = \<lparr>frame = h, peer_calls = [], browser_calls = [], ui_tasks = []\<rparr>"

text \<open>The states a handle can be in: a constructor, followed by calls none of which is fatal.\<close>

inductive reachable :: "collaborators \<Rightarrow> world \<Rightarrow> bool" for env where
  reachable_new: "reachable env (new_world (CefFrameHostImpl_new info is_main parent_id))"
| reachable_new_bound:
    "CefFrameHostImpl_new_bound env info host = Some h \<Longrightarrow> reachable env (new_world h)"
| reachable_exec: "reachable env w \<Longrightarrow> exec env x w = Some w' \<Longrightarrow> reachable env w'"

text \<open>A sequence of \<^verbatim>\<open>SendToRenderFrame\<close> calls from one thread, in call order.\<close>

fun SendToRenderFrame_all :: "bool \<Rightarrow> RenderFrameAction list \<Rightarrow> world \<Rightarrow> world" where
  "SendToRenderFrame_all on_uit [] w = w"
| "SendToRenderFrame_all on_uit (action # actions) w =
     SendToRenderFrame_all on_uit actions (SendToRenderFrame on_uit action w)"


text \<open>
  Modelled from the spec: the UI thread running every re-posted call that is pending, the
  oldest first.
\<close>

definition RunPostedTasks :: "world \<Rightarrow> world" where
  "RunPostedTasks w = SendToRenderFrame_all True (ui_tasks w) (w\<lparr>ui_tasks := []\<rparr>)"

text \<open>
  Collaborators for the examples: the identifier packs the process id above the routing
  id, a URL is taken as it is, and the fixup refuses the empty URL.
\<close>

definition example_collaborators :: collaborators where
  "example_collaborators =
     \<lparr>frame_util_MakeFrameId = (\<lambda>process routing. process * 4294967296 + routing),
      url_util_MakeGURL = (\<lambda>spec fixup. spec),
      url_util_FixupGURL = (\<lambda>gurl. if gurl = [] then None else Some gurl)\<rparr>"

definition example_main_host :: RenderFrameHost where
  "example_main_host =
     RenderFrameHost 5 7 ''https://example.com/'' [] None True (Some ''main'')"

definition example_child_host :: RenderFrameHost where
  "example_child_host =
     RenderFrameHost 5 9 ''https://example.com/child'' ''child'' (Some example_main_host) True None"

definition example_remote_child_host :: RenderFrameHost where
  "example_remote_child_host =
     RenderFrameHost 6 2 ''https://other.example/'' ''ad'' (Some example_main_host) True None"

definition example_info :: CefBrowserInfo where
  "example_info = CefBrowserInfo (Some 1)"

text \<open>The handle that the bound constructor makes for the same-process child frame.\<close>

definition example_child :: CefFrameHostImpl where
  "example_child =
     \<lparr>is_main_frame = False,
      frame_id = 21474836489,
      browser_info = Some example_info,
      is_focused = False,
      url = ''https://example.com/child'',
      name = ''child'',
      parent_frame_id = 21474836487,
      render_frame = None,
      render_frame_host = Some example_child_host,
      is_attached = False,
      queued_actions = []\<rparr>"

text \<open>The handle that the bound constructor makes for the main frame.\<close>

definition example_main :: CefFrameHostImpl where
  "example_main =
     \<lparr>is_main_frame = True,
      frame_id = 21474836487,
      browser_info = Some example_info,
      is_focused = True,
      url = ''https://example.com/'',
      name = [],
      parent_frame_id = kInvalidFrameId,
      render_frame = None,
      render_frame_host = Some example_main_host,
      is_attached = False,
      queued_actions = []\<rparr>"

text \<open>The handle that the bound constructor makes for the child frame in another process.\<close>

definition example_remote_child :: CefFrameHostImpl where
  "example_remote_child =
     \<lparr>is_main_frame = False,
      frame_id = 25769803778,
      browser_info = Some example_info,
      is_focused = False,
      url = ''https://other.example/'',
      name = ''ad'',
      parent_frame_id = 21474836487,
      render_frame = None,
      render_frame_host = Some example_remote_child_host,
      is_attached = False,
      queued_actions = []\<rparr>"

text \<open>A child frame whose host has no interface provider, and its handle.\<close>

definition example_unbindable_host :: RenderFrameHost where
  "example_unbindable_host =
     RenderFrameHost 5 11 ''about:blank'' [] (Some example_main_host) False None"

definition example_unbindable :: CefFrameHostImpl where
  "example_unbindable =
     \<lparr>is_main_frame = False,
      frame_id = 21474836491,
      browser_info = Some example_info,
      is_focused = False,
      url = ''about:blank'',
      name = [],
      parent_frame_id = 21474836487,
      render_frame = None,
      render_frame_host = Some example_unbindable_host,
      is_attached = False,
      queued_actions = []\<rparr>"

text \<open>The same-process child frame once the renderer has reported it attached.\<close>

definition example_attached_child :: world where
  "example_attached_child = FrameAttached (new_world example_child)"

section \<open>Properties\<close>

subsection \<open>The two loops and the peer connection\<close>

lemma GetRenderFrame_fields:
  "is_attached (GetRenderFrame h) = is_attached h"
  "queued_actions (GetRenderFrame h) = queued_actions h"
  "render_frame_host (GetRenderFrame h) = render_frame_host h"
  "browser_info (GetRenderFrame h) = browser_info h"
  "is_main_frame (GetRenderFrame h) = is_main_frame h"
  "frame_id (GetRenderFrame h) = frame_id h"
  "is_focused (GetRenderFrame h) = is_focused h"
  "url (GetRenderFrame h) = url h"
  "name (GetRenderFrame h) = name h"
  "parent_frame_id (GetRenderFrame h) = parent_frame_id h"
  by (simp_all add: GetRenderFrame_def split: option.splits)

lemma GetRenderFrame_unresolved:
  "render_frame (GetRenderFrame h) = None \<Longrightarrow> GetRenderFrame h = h"
  by (simp add: GetRenderFrame_def split: option.splits if_splits)

lemma drain_queued_actions_eq:
  "drain_queued_actions remote w =
     w\<lparr>frame := (frame w)\<lparr>queued_actions := []\<rparr>,
       peer_calls := peer_calls w @
         (case remote of Some r \<Rightarrow> map (Pair r) (queued_actions (frame w)) | None \<Rightarrow> [])\<rparr>"
proof (induction remote w rule: drain_queued_actions.induct)
  case (1 remote w)
  show ?case
  proof (cases "queued_actions (frame w)")
    case Nil
    then show ?thesis
      by (subst drain_queued_actions.simps) (simp split: option.splits)
  next
    case (Cons a as)
    then have ne: "queued_actions (frame w) \<noteq> []" by simp
    show ?thesis
      apply (subst drain_queued_actions.simps)
      apply (simp only: ne if_False)
      apply (subst "1.IH" [OF ne])
      apply (simp add: Cons split: option.splits)
      done
  qed
qed

lemma pop_queued_actions_eq: "pop_queued_actions h = h\<lparr>queued_actions := []\<rparr>"
proof (induction h rule: pop_queued_actions.induct)
  case (1 h)
  show ?case
  proof (cases "queued_actions h = []")
    case True
    then show ?thesis by (subst pop_queued_actions.simps) simp
  next
    case False
    then show ?thesis
      by (subst pop_queued_actions.simps) (simp add: "1.IH")
  qed
qed

lemma Detach_eq:
  "Detach h = h\<lparr>browser_info := None, queued_actions := [], render_frame := None,
                render_frame_host := None\<rparr>"
  by (simp add: Detach_def pop_queued_actions_eq)

lemma example_child_bound:
  "CefFrameHostImpl_new_bound example_collaborators example_info example_child_host =
     Some example_child"
  by (simp add: CefFrameHostImpl_new_bound_def SetRenderFrameHost_def CefFrameHostImpl_new_def
        MakeFrameId_def example_collaborators_def example_child_host_def example_main_host_def
        example_child_def)

lemma example_main_bound:
  "CefFrameHostImpl_new_bound example_collaborators example_info example_main_host =
     Some example_main"
  by (simp add: CefFrameHostImpl_new_bound_def SetRenderFrameHost_def CefFrameHostImpl_new_def
        MakeFrameId_def example_collaborators_def example_main_host_def example_main_def)

lemma example_remote_child_bound:
  "CefFrameHostImpl_new_bound example_collaborators example_info example_remote_child_host =
     Some example_remote_child"
  by (simp add: CefFrameHostImpl_new_bound_def SetRenderFrameHost_def CefFrameHostImpl_new_def
        MakeFrameId_def example_collaborators_def example_remote_child_host_def
        example_main_host_def example_remote_child_def)

lemma example_unbindable_bound:
  "CefFrameHostImpl_new_bound example_collaborators example_info example_unbindable_host =
     Some example_unbindable"
  by (simp add: CefFrameHostImpl_new_bound_def SetRenderFrameHost_def CefFrameHostImpl_new_def
        MakeFrameId_def example_collaborators_def example_unbindable_host_def
        example_main_host_def example_unbindable_def)

lemma example_attached_child_eq:
  "example_attached_child =
     \<lparr>frame = example_child\<lparr>render_frame := Some (5, 9), is_attached := True\<rparr>,
      peer_calls = [], browser_calls = [], ui_tasks = []\<rparr>"
  by (simp add: example_attached_child_def FrameAttached_def Let_def new_world_def
        example_child_def GetRenderFrame_def example_child_host_def drain_queued_actions_eq)

lemma example_unbindable_attached:
  "FrameAttached (new_world example_unbindable) =
     (new_world example_unbindable)\<lparr>frame := example_unbindable\<lparr>is_attached := True\<rparr>\<rparr>"
  by (simp add: FrameAttached_def Let_def new_world_def example_unbindable_def
        GetRenderFrame_def example_unbindable_host_def drain_queued_actions_eq)



subsection \<open>What the dispatch core leaves alone\<close>

lemma SendToRenderFrame_fields:
  "is_attached (frame (SendToRenderFrame on_uit action w)) = is_attached (frame w)"
  "render_frame_host (frame (SendToRenderFrame on_uit action w)) = render_frame_host (frame w)"
  "browser_info (frame (SendToRenderFrame on_uit action w)) = browser_info (frame w)"
  "is_main_frame (frame (SendToRenderFrame on_uit action w)) = is_main_frame (frame w)"
  "frame_id (frame (SendToRenderFrame on_uit action w)) = frame_id (frame w)"
  "is_focused (frame (SendToRenderFrame on_uit action w)) = is_focused (frame w)"
  "url (frame (SendToRenderFrame on_uit action w)) = url (frame w)"
  "name (frame (SendToRenderFrame on_uit action w)) = name (frame w)"
  "parent_frame_id (frame (SendToRenderFrame on_uit action w)) = parent_frame_id (frame w)"
  "browser_calls (SendToRenderFrame on_uit action w) = browser_calls w"
  by (simp_all add: SendToRenderFrame_def Let_def GetRenderFrame_fields split: option.splits)





lemma FrameAttached_attached: "is_attached (frame (FrameAttached w))"
  by (simp add: FrameAttached_def Let_def drain_queued_actions_eq GetRenderFrame_fields)

lemma FrameAttached_again: "is_attached (frame w) \<Longrightarrow> FrameAttached w = w"
  by (simp add: FrameAttached_def)

lemma SendToRenderFrame_queued_actions:
  "queued_actions (frame (SendToRenderFrame on_uit action w)) =
     (if on_uit \<and> render_frame_host (frame w) \<noteq> None \<and> \<not> is_attached (frame w)
      then queued_actions (frame w) @ [action] else queued_actions (frame w))"
  by (simp add: SendToRenderFrame_def Let_def GetRenderFrame_fields split: option.splits)

lemma SendToRenderFrame_no_host:
  "render_frame_host (frame w) = None \<Longrightarrow>
   SendToRenderFrame on_uit action w =
     (if on_uit then w else w\<lparr>ui_tasks := ui_tasks w @ [action]\<rparr>)"
  by (simp add: SendToRenderFrame_def)

lemma FrameAttached_queued_actions:
  "queued_actions (frame (FrameAttached w)) =
     (if is_attached (frame w) then queued_actions (frame w) else [])"
  by (simp add: FrameAttached_def Let_def drain_queued_actions_eq)

lemmas op_defs = on_frame_def SetRenderFrameHost_def RefreshAttributes_def Let_def
  SetFocused_def SendCommand_def SendCommandWithResponse_def
  NotifyMoveOrResizeStarted_def SendProcessMessage_def SendJavaScript_def
  LoadRequest_def LoadURLWithExtras_def MaybeSendDidStopLoading_def
  DidFinishFrameLoad_def RunPostedTask_def GetRenderFrameHost_def

subsection \<open>Queueing before attachment\<close>

lemma SendToRenderFrame_ui_tasks_update:
  "SendToRenderFrame True action (w\<lparr>ui_tasks := tasks\<rparr>) =
     (SendToRenderFrame True action w)\<lparr>ui_tasks := tasks\<rparr>"
  by (simp add: SendToRenderFrame_def Let_def split: option.splits)

text \<open>Running all pending re-posted calls is running the oldest, then the rest.\<close>

lemma RunPostedTasks_step:
  "RunPostedTasks w = (if ui_tasks w = [] then w else RunPostedTasks (RunPostedTask w))"
proof (cases "ui_tasks w")
  case Nil
  then have "w\<lparr>ui_tasks := []\<rparr> = w" by simp
  with Nil show ?thesis by (simp add: RunPostedTasks_def)
next
  case (Cons a rest)
  have t: "ui_tasks (SendToRenderFrame True a (w\<lparr>ui_tasks := rest\<rparr>)) = rest"
    by (simp add: SendToRenderFrame_def Let_def split: option.splits)
  show ?thesis
    by (simp add: RunPostedTasks_def RunPostedTask_def Cons t SendToRenderFrame_ui_tasks_update)
qed






subsection \<open>Attaching twice\<close>

text \<open>Once attached, a handle stays attached whatever is called on it.\<close>

lemma exec_is_attached:
  "exec env x w = Some w' \<Longrightarrow> is_attached (frame w) \<Longrightarrow> is_attached (frame w')"
  by (cases x)
     (auto simp: op_defs SendToRenderFrame_fields FrameAttached_attached Detach_eq
        split: option.splits if_splits list.splits)

lemma run_is_attached:
  "run env xs w = Some w' \<Longrightarrow> is_attached (frame w) \<Longrightarrow> is_attached (frame w')"
  by (induction xs arbitrary: w) (auto split: option.splits dest: exec_is_attached)

text \<open>
  Claim C3. After a first \<^verbatim>\<open>FrameAttached\<close>, and whatever calls follow it, the handle is
  attached and a further \<^verbatim>\<open>FrameAttached\<close> is the identity on the whole state: the queue,
  the peer connection, every other field and the calls made so far are what they were, so
  nothing is drained a second time.
\<close>

theorem FrameAttached_idempotent:
  "run env xs (FrameAttached w) = Some w' \<Longrightarrow>
   is_attached (frame w') \<and> FrameAttached w' = w'
   \<and> FrameAttached (FrameAttached w) = FrameAttached w"
  using run_is_attached [OF _ FrameAttached_attached] FrameAttached_again FrameAttached_attached
  by blast

theorem FrameAttached_idempotent_witness:
  "run example_collaborators [op_SendCommand True ''Undo'']
       (FrameAttached (SendCommand True ''Copy'' (new_world example_child))) =
     Some (SendCommand True ''Undo'' (FrameAttached (SendCommand True ''Copy'' (new_world example_child))))
   \<and> FrameAttached (SendCommand True ''Undo''
         (FrameAttached (SendCommand True ''Copy'' (new_world example_child)))) =
       SendCommand True ''Undo'' (FrameAttached (SendCommand True ''Copy'' (new_world example_child)))
   \<and> peer_calls (FrameAttached (SendCommand True ''Copy'' (new_world example_child))) =
       [((5, 9), render_frame_SendCommand ''Copy'')]"
proof -
  have r: "run example_collaborators [op_SendCommand True ''Undo'']
       (FrameAttached (SendCommand True ''Copy'' (new_world example_child))) =
     Some (SendCommand True ''Undo'' (FrameAttached (SendCommand True ''Copy'' (new_world example_child))))"
    by simp
  have p: "peer_calls (FrameAttached (SendCommand True ''Copy'' (new_world example_child))) =
       [((5, 9), render_frame_SendCommand ''Copy'')]"
    by (simp add: SendCommand_def SendToRenderFrame_def new_world_def example_child_def
          FrameAttached_def Let_def GetRenderFrame_def example_child_host_def
          drain_queued_actions_eq)
  show ?thesis
    using FrameAttached_idempotent [OF r] r p by simp
qed

subsection \<open>The queue and the attached flag\<close>

lemma exec_queue_invariant:
  "exec env x w = Some w' \<Longrightarrow>
   (queued_actions (frame w) \<noteq> [] \<longrightarrow> \<not> is_attached (frame w)) \<Longrightarrow>
   (queued_actions (frame w') \<noteq> [] \<longrightarrow> \<not> is_attached (frame w'))"
  by (cases x)
     (auto simp: op_defs SendToRenderFrame_fields SendToRenderFrame_queued_actions
        FrameAttached_queued_actions FrameAttached_attached Detach_eq
        split: option.splits if_splits list.splits)

lemma reachable_queue_invariant:
  "reachable env w \<Longrightarrow> queued_actions (frame w) \<noteq> [] \<longrightarrow> \<not> is_attached (frame w)"
proof (induction rule: reachable.induct)
  case (reachable_new info is_main parent_id)
  show ?case by (simp add: new_world_def CefFrameHostImpl_new_def)
next
  case (reachable_new_bound info host h)
  then show ?case
    by (auto simp: new_world_def CefFrameHostImpl_new_bound_def CefFrameHostImpl_new_def
          SetRenderFrameHost_def split: if_splits)
next
  case (reachable_exec w x w')
  then show ?case using exec_queue_invariant by blast
qed

text \<open>
  Claim C7. In every state a handle can reach, the queue is non-empty only while the handle
  is not attached. \<^verbatim>\<open>SendToRenderFrame\<close> changes the queue only when the handle is not
  attached, and \<^verbatim>\<open>FrameAttached\<close> and \<^verbatim>\<open>Detach\<close> both leave it empty.
\<close>

theorem queue_nonempty_only_unattached:
  assumes "reachable env w"
  shows "(queued_actions (frame w) \<noteq> [] \<longrightarrow> \<not> is_attached (frame w))
       \<and> (queued_actions (frame (SendToRenderFrame on_uit action w)) \<noteq> queued_actions (frame w)
            \<longrightarrow> \<not> is_attached (frame w))
       \<and> queued_actions (frame (FrameAttached w)) = []
       \<and> queued_actions (Detach (frame w)) = []"
  using reachable_queue_invariant [OF assms]
  by (auto simp: SendToRenderFrame_queued_actions FrameAttached_queued_actions Detach_eq
        split: if_splits)

theorem queue_nonempty_only_unattached_witness:
  "reachable example_collaborators (SendCommand True ''Copy'' (new_world example_child))
   \<and> queued_actions (frame (SendCommand True ''Copy'' (new_world example_child))) =
       [render_frame_SendCommand ''Copy'']
   \<and> \<not> is_attached (frame (SendCommand True ''Copy'' (new_world example_child)))
   \<and> queued_actions (frame (FrameAttached (SendCommand True ''Copy'' (new_world example_child)))) = []"
proof -
  have e: "exec example_collaborators (op_SendCommand True ''Copy'') (new_world example_child) =
             Some (SendCommand True ''Copy'' (new_world example_child))"
    by simp
  have r: "reachable example_collaborators (SendCommand True ''Copy'' (new_world example_child))"
    using reachable_exec [OF reachable_new_bound [OF example_child_bound] e] .
  have q: "queued_actions (frame (SendCommand True ''Copy'' (new_world example_child))) =
       [render_frame_SendCommand ''Copy'']"
    by (simp add: SendCommand_def SendToRenderFrame_def new_world_def example_child_def)
  show ?thesis
    using queue_nonempty_only_unattached [OF r] r q by simp
qed

subsection \<open>What Detach touches\<close>

text \<open>
  Claim C10. \<^verbatim>\<open>Detach\<close> writes the browser reference, the queue, the peer connection and
  the frame host, and nothing else: the identifier, the URL, the name, the focus flag and
  the main-frame flag are what they were, and so are the results of \<^verbatim>\<open>GetIdentifier\<close>,
  \<^verbatim>\<open>GetURL\<close>, \<^verbatim>\<open>GetName\<close>, \<^verbatim>\<open>IsFocused\<close> and \<^verbatim>\<open>IsMain\<close>.
\<close>

theorem Detach_frame_effect:
  "Detach h = h\<lparr>browser_info := None, queued_actions := [], render_frame := None,
                render_frame_host := None\<rparr>
   \<and> frame_id (Detach h) = frame_id h
   \<and> url (Detach h) = url h
   \<and> name (Detach h) = name h
   \<and> is_focused (Detach h) = is_focused h
   \<and> is_main_frame (Detach h) = is_main_frame h
   \<and> GetIdentifier (Detach h) = GetIdentifier h
   \<and> GetURL (Detach h) = GetURL h
   \<and> GetName (Detach h) = GetName h
   \<and> IsFocused (Detach h) = IsFocused h
   \<and> IsMain (Detach h) = IsMain h"
  by (simp add: Detach_eq GetIdentifier_def GetURL_def GetName_def IsFocused_def IsMain_def)

subsection \<open>After Detach\<close>

lemma Detach_detached: "detached (Detach h)"
  by (simp add: detached_def Detach_eq)

lemma exec_detached:
  "exec env x w = Some w' \<Longrightarrow> detached (frame w) \<Longrightarrow>
   detached (frame w') \<and> peer_calls w' = peer_calls w \<and> browser_calls w' = browser_calls w"
  by (cases x)
     (auto simp: detached_def op_defs SendToRenderFrame_no_host GetBrowserHostBase_def
        FrameAttached_def drain_queued_actions_eq GetRenderFrame_def Detach_eq
        split: option.splits if_splits list.splits)

lemma exec_detached_peer_directed:
  "detached (frame w) \<Longrightarrow> peer_directed x \<Longrightarrow>
   \<exists>w'. exec env x w = Some w' \<and> frame w' = frame w \<and> peer_calls w' = peer_calls w
        \<and> browser_calls w' = browser_calls w"
  by (cases x)
     (auto simp: detached_def op_defs SendToRenderFrame_no_host GetBrowserHostBase_def
        split: option.splits if_splits list.splits)

lemma run_detached:
  "run env xs w = Some w' \<Longrightarrow> detached (frame w) \<Longrightarrow>
   detached (frame w') \<and> peer_calls w' = peer_calls w \<and> browser_calls w' = browser_calls w"
proof (induction xs arbitrary: w)
  case Nil
  then show ?case by simp
next
  case (Cons x xs)
  from Cons.prems(1) obtain w1 where e: "exec env x w = Some w1" and r: "run env xs w1 = Some w'"
    by (auto split: option.splits)
  from exec_detached [OF e Cons.prems(2)] Cons.IH [OF r] show ?case by simp
qed

text \<open>
  Claim C2. Whatever the state \<^verbatim>\<open>Detach\<close> is called in, and whatever calls follow it,
  \<^verbatim>\<open>IsValid\<close> is false afterwards, the queue is empty, and no action has reached the peer
  and no call the browser since before \<^verbatim>\<open>Detach\<close>: what was queued was dropped, not run.
  Every call that goes to the peer then returns with the handle, the calls on the peer and
  the calls on the browser unchanged.
\<close>

theorem detached_forever:
  assumes "run env xs (w\<lparr>frame := Detach (frame w)\<rparr>) = Some w'"
  shows "\<not> IsValid (frame w')
       \<and> queued_actions (frame w') = []
       \<and> peer_calls w' = peer_calls w
       \<and> browser_calls w' = browser_calls w
       \<and> (peer_directed x \<longrightarrow>
            (\<exists>w''. exec env x w' = Some w'' \<and> frame w'' = frame w'
                  \<and> peer_calls w'' = peer_calls w' \<and> browser_calls w'' = browser_calls w'))"
proof -
  have d0: "detached (frame (w\<lparr>frame := Detach (frame w)\<rparr>))"
    by (simp add: Detach_detached)
  from run_detached [OF assms d0]
  have d: "detached (frame w')" and p: "peer_calls w' = peer_calls w"
    and b: "browser_calls w' = browser_calls w"
    by simp_all
  from d have v: "\<not> IsValid (frame w')" and q: "queued_actions (frame w') = []"
    by (simp_all add: detached_def IsValid_def GetBrowserHostBase_def)
  from exec_detached_peer_directed [OF d] v q p b show ?thesis by blast
qed

theorem detached_forever_witness:
  "run example_collaborators [op_FrameAttached, op_SendCommand True ''Undo'']
       ((SendCommand True ''Copy'' (new_world example_child))
          \<lparr>frame := Detach (frame (SendCommand True ''Copy'' (new_world example_child)))\<rparr>) =
     Some (SendCommand True ''Undo'' (FrameAttached
       ((SendCommand True ''Copy'' (new_world example_child))
          \<lparr>frame := Detach (frame (SendCommand True ''Copy'' (new_world example_child)))\<rparr>)))
   \<and> queued_actions (frame (SendCommand True ''Copy'' (new_world example_child))) =
       [render_frame_SendCommand ''Copy'']
   \<and> \<not> IsValid (frame (SendCommand True ''Undo'' (FrameAttached
       ((SendCommand True ''Copy'' (new_world example_child))
          \<lparr>frame := Detach (frame (SendCommand True ''Copy'' (new_world example_child)))\<rparr>))))
   \<and> peer_calls (SendCommand True ''Undo'' (FrameAttached
       ((SendCommand True ''Copy'' (new_world example_child))
          \<lparr>frame := Detach (frame (SendCommand True ''Copy'' (new_world example_child)))\<rparr>))) = []
   \<and> peer_directed (op_SendJavaScript True ''f()'' [] 0)"
proof -
  let ?w = "SendCommand True ''Copy'' (new_world example_child)"
  have r: "run example_collaborators [op_FrameAttached, op_SendCommand True ''Undo'']
       (?w\<lparr>frame := Detach (frame ?w)\<rparr>) =
     Some (SendCommand True ''Undo'' (FrameAttached (?w\<lparr>frame := Detach (frame ?w)\<rparr>)))"
    by simp
  have q: "queued_actions (frame ?w) = [render_frame_SendCommand ''Copy'']"
    and p: "peer_calls ?w = []"
    by (simp_all add: SendCommand_def SendToRenderFrame_def new_world_def example_child_def)
  show ?thesis
    using detached_forever [OF r, of "op_SendJavaScript True ''f()'' [] 0"] r q p by simp
qed

subsection \<open>The identifier of the main frame\<close>

lemma exec_is_main_frame:
  "exec env x w = Some w' \<Longrightarrow> is_main_frame (frame w') = is_main_frame (frame w)"
  by (cases x)
     (auto simp: op_defs SendToRenderFrame_fields FrameAttached_def drain_queued_actions_eq
        GetRenderFrame_fields Detach_eq
        split: option.splits if_splits list.splits)

lemma exec_frame_id_invariant:
  "exec env x w = Some w' \<Longrightarrow>
   (\<forall>host. render_frame_host (frame w) = Some host \<longrightarrow> frame_id (frame w) = MakeFrameId env host) \<Longrightarrow>
   (\<forall>host. render_frame_host (frame w') = Some host \<longrightarrow> frame_id (frame w') = MakeFrameId env host)"
  by (cases x)
     (auto simp: op_defs SendToRenderFrame_fields FrameAttached_def drain_queued_actions_eq
        GetRenderFrame_fields Detach_eq
        split: option.splits if_splits list.splits)

lemma run_main_frame_invariant:
  "run env xs w = Some w' \<Longrightarrow>
   is_main_frame (frame w) \<Longrightarrow>
   (\<forall>host. render_frame_host (frame w) = Some host \<longrightarrow> frame_id (frame w) = MakeFrameId env host) \<Longrightarrow>
   is_main_frame (frame w') \<and>
   (\<forall>host. render_frame_host (frame w') = Some host \<longrightarrow> frame_id (frame w') = MakeFrameId env host)"
proof (induction xs arbitrary: w)
  case Nil
  then show ?case by simp
next
  case (Cons x xs)
  from Cons.prems(1) obtain w1 where e: "exec env x w = Some w1" and r: "run env xs w1 = Some w'"
    by (auto split: option.splits)
  have m: "is_main_frame (frame w1)"
    using exec_is_main_frame [OF e] Cons.prems(2) by simp
  show ?case
    using Cons.IH [OF r m exec_frame_id_invariant [OF e Cons.prems(3)]] .
qed

lemma exec_frame_id_unbound:
  "exec env x w = Some w' \<Longrightarrow> (\<forall>host. x \<noteq> op_SetRenderFrameHost host) \<Longrightarrow>
   frame_id (frame w') = frame_id (frame w)"
  by (cases x)
     (auto simp: op_defs SendToRenderFrame_fields FrameAttached_def drain_queued_actions_eq
        GetRenderFrame_fields Detach_eq
        split: option.splits if_splits list.splits)

lemma run_frame_id_unbound:
  "run env xs w = Some w' \<Longrightarrow> (\<forall>host. op_SetRenderFrameHost host \<notin> set xs) \<Longrightarrow>
   frame_id (frame w') = frame_id (frame w)"
proof (induction xs arbitrary: w)
  case Nil
  then show ?case by simp
next
  case (Cons x xs)
  from Cons.prems(1) obtain w1 where e: "exec env x w = Some w1" and r: "run env xs w1 = Some w'"
    by (auto split: option.splits)
  have nx: "\<forall>host. x \<noteq> op_SetRenderFrameHost host"
    and nxs: "\<forall>host. op_SetRenderFrameHost host \<notin> set xs"
    using Cons.prems(2) by auto
  show ?case
    using Cons.IH [OF r nxs] exec_frame_id_unbound [OF e nx] by simp
qed

text \<open>
  Claim C4, as amended. For a handle constructed as the main frame, by either constructor,
  and whatever calls follow, \<^verbatim>\<open>GetFrameId\<close> is \<open>kMainFrameId\<close>. \<^verbatim>\<open>GetIdentifier\<close> is the
  stored \<open>frame_id\<close>: \<open>kInvalidFrameId\<close> for the pre-binding constructor until
  \<^verbatim>\<open>SetRenderFrameHost\<close> is called, and, while a frame host is bound, the identifier made
  from its process and routing ids.
\<close>

theorem main_frame_identifier:
  assumes "w0 = new_world (CefFrameHostImpl_new info True parent_id)
           \<or> (GetParent host0 = None
              \<and> CefFrameHostImpl_new_bound env info host0 = Some h0 \<and> w0 = new_world h0)"
    and "run env xs w0 = Some w"
  shows "GetFrameId (frame w) = kMainFrameId
       \<and> GetIdentifier (frame w) = frame_id (frame w)
       \<and> (\<forall>host. render_frame_host (frame w) = Some host \<longrightarrow>
             GetIdentifier (frame w) = MakeFrameId env host)
       \<and> (w0 = new_world (CefFrameHostImpl_new info True parent_id)
            \<and> (\<forall>host. op_SetRenderFrameHost host \<notin> set xs) \<longrightarrow>
             GetIdentifier (frame w) = kInvalidFrameId)"
proof -
  have m0: "is_main_frame (frame w0)"
    using assms(1)
    by (auto simp: new_world_def CefFrameHostImpl_new_def CefFrameHostImpl_new_bound_def
          SetRenderFrameHost_def split: if_splits)
  have i0: "\<forall>host. render_frame_host (frame w0) = Some host \<longrightarrow>
              frame_id (frame w0) = MakeFrameId env host"
    using assms(1)
    by (auto simp: new_world_def CefFrameHostImpl_new_def CefFrameHostImpl_new_bound_def
          SetRenderFrameHost_def split: if_splits)
  have u: "w0 = new_world (CefFrameHostImpl_new info True parent_id)
            \<and> (\<forall>host. op_SetRenderFrameHost host \<notin> set xs) \<longrightarrow>
             GetIdentifier (frame w) = kInvalidFrameId"
  proof
    assume a: "w0 = new_world (CefFrameHostImpl_new info True parent_id)
               \<and> (\<forall>host. op_SetRenderFrameHost host \<notin> set xs)"
    then have "frame_id (frame w) = frame_id (frame w0)"
      using run_frame_id_unbound [OF assms(2)] by blast
    with a show "GetIdentifier (frame w) = kInvalidFrameId"
      by (simp add: GetIdentifier_def new_world_def CefFrameHostImpl_new_def)
  qed
  from run_main_frame_invariant [OF assms(2) m0 i0] u
  show ?thesis by (simp add: GetFrameId_def GetIdentifier_def)
qed

theorem main_frame_identifier_witness:
  "run example_collaborators [op_SetRenderFrameHost example_main_host]
       (new_world (CefFrameHostImpl_new example_info True kInvalidFrameId)) =
     Some (new_world example_main)
   \<and> GetFrameId (frame (new_world example_main)) = kMainFrameId
   \<and> render_frame_host (frame (new_world example_main)) = Some example_main_host
   \<and> GetIdentifier (frame (new_world example_main)) =
       MakeFrameId example_collaborators example_main_host
   \<and> run example_collaborators [op_SetFocused False]
       (new_world (CefFrameHostImpl_new example_info True kInvalidFrameId)) =
     Some ((new_world (CefFrameHostImpl_new example_info True kInvalidFrameId))
        \<lparr>frame := SetFocused False (CefFrameHostImpl_new example_info True kInvalidFrameId)\<rparr>)
   \<and> GetIdentifier (SetFocused False (CefFrameHostImpl_new example_info True kInvalidFrameId)) =
       kInvalidFrameId"
proof -
  let ?w0 = "new_world (CefFrameHostImpl_new example_info True kInvalidFrameId)"
  have r: "run example_collaborators [op_SetRenderFrameHost example_main_host] ?w0 =
     Some (new_world example_main)"
    by (simp add: on_frame_def SetRenderFrameHost_def new_world_def CefFrameHostImpl_new_def
          example_main_def MakeFrameId_def example_collaborators_def example_main_host_def)
  have h: "render_frame_host (frame (new_world example_main)) = Some example_main_host"
    by (simp add: new_world_def example_main_def)
  have r2: "run example_collaborators [op_SetFocused False] ?w0 =
     Some (?w0\<lparr>frame := SetFocused False (CefFrameHostImpl_new example_info True kInvalidFrameId)\<rparr>)"
    by (simp add: new_world_def)
  have n2: "\<forall>host. op_SetRenderFrameHost host \<notin> set [op_SetFocused False]"
    by simp
  have c1: "GetFrameId (frame (new_world example_main)) = kMainFrameId
        \<and> GetIdentifier (frame (new_world example_main)) =
            MakeFrameId example_collaborators example_main_host"
    using main_frame_identifier [OF _ r, of example_info kInvalidFrameId] h by simp
  have c2: "GetIdentifier (SetFocused False
              (CefFrameHostImpl_new example_info True kInvalidFrameId)) = kInvalidFrameId"
    using main_frame_identifier [OF _ r2, of example_info kInvalidFrameId] n2 by simp
  from r h r2 c1 c2 show ?thesis by (intro conjI) simp_all
qed

text \<open>
  Claim C4 as stated fails for \<^verbatim>\<open>GetIdentifier\<close>: on a main-frame handle it is
  \<open>kInvalidFrameId\<close> before binding and the identifier of the bound frame host after, not
  \<open>kMainFrameId\<close>.
\<close>

theorem main_frame_GetIdentifier_counterexample:
  "is_main_frame (CefFrameHostImpl_new example_info True kInvalidFrameId)
   \<and> GetIdentifier (CefFrameHostImpl_new example_info True kInvalidFrameId) = - 4
   \<and> GetIdentifier (CefFrameHostImpl_new example_info True kInvalidFrameId) \<noteq> kMainFrameId
   \<and> CefFrameHostImpl_new_bound example_collaborators example_info example_main_host =
       Some example_main
   \<and> is_main_frame example_main
   \<and> GetIdentifier example_main = 21474836487
   \<and> GetIdentifier example_main \<noteq> kMainFrameId
   \<and> GetFrameId example_main = kMainFrameId"
  by (simp add: example_main_bound)
     (simp add: GetIdentifier_def GetFrameId_def CefFrameHostImpl_new_def example_main_def
        kInvalidFrameId_def kMainFrameId_def)

subsection \<open>Navigation\<close>

text \<open>
  Claim C5, as amended. \<^verbatim>\<open>LoadURLWithExtras\<close> (and \<^verbatim>\<open>LoadURL\<close>, which calls it) does
  nothing when \<^verbatim>\<open>GetFrameId\<close> is below \<open>kMainFrameId\<close>. When it is \<open>kMainFrameId\<close>, it
  calls \<^verbatim>\<open>LoadMainFrameURL\<close> on the owning browser if that is live and does nothing
  otherwise; in both cases the handle, the peer and the re-posted calls are untouched. When
  it is above \<open>kMainFrameId\<close>, it does nothing if the URL fixup fails; otherwise it passes a
  load request with the fixed URL to \<^verbatim>\<open>SendToRenderFrame\<close> and then asks the browser, if
  live, for focus, and never calls \<^verbatim>\<open>LoadMainFrameURL\<close>.
\<close>

theorem LoadURLWithExtras_routes:
  "(GetFrameId (frame w) < kMainFrameId \<longrightarrow>
      LoadURLWithExtras on_uit env url_arg referrer transition extra_headers w = w)
   \<and> (GetFrameId (frame w) = kMainFrameId \<longrightarrow>
      LoadURLWithExtras on_uit env url_arg referrer transition extra_headers w =
        (case GetBrowserHostBase (frame w) of
           Some b \<Rightarrow>
             w\<lparr>browser_calls := browser_calls w @
                [LoadMainFrameURL
                   \<lparr>open_url = url_util_MakeGURL env url_arg False,
                    open_referrer = referrer,
                    open_disposition = CURRENT_TAB,
                    open_transition = transition,
                    open_is_renderer_initiated = False,
                    open_extra_headers = extra_headers\<rparr>]\<rparr>
         | None \<Rightarrow> w)
      \<and> frame (LoadURLWithExtras on_uit env url_arg referrer transition extra_headers w) = frame w
      \<and> peer_calls (LoadURLWithExtras on_uit env url_arg referrer transition extra_headers w) =
          peer_calls w
      \<and> ui_tasks (LoadURLWithExtras on_uit env url_arg referrer transition extra_headers w) =
          ui_tasks w)
   \<and> (kMainFrameId < GetFrameId (frame w) \<longrightarrow>
      LoadURLWithExtras on_uit env url_arg referrer transition extra_headers w =
        (case url_util_FixupGURL env (url_util_MakeGURL env url_arg False) of
           None \<Rightarrow> w
         | Some fixed \<Rightarrow>
             (case GetBrowserHostBase (frame w) of
                Some b \<Rightarrow>
                  (SendToRenderFrame on_uit
                     (render_frame_LoadRequest
                        \<lparr>params_url = fixed, params_referrer = referrer,
                         params_headers = extra_headers\<rparr>) w)
                  \<lparr>browser_calls := browser_calls w @ [OnSetFocus FOCUS_SOURCE_NAVIGATION]\<rparr>
              | None \<Rightarrow>
                  SendToRenderFrame on_uit
                    (render_frame_LoadRequest
                       \<lparr>params_url = fixed, params_referrer = referrer,
                        params_headers = extra_headers\<rparr>) w)))
   \<and> LoadURL on_uit env url_arg w =
       LoadURLWithExtras on_uit env url_arg Referrer_default kPageTransitionExplicit [] w"
  by (auto simp: LoadURLWithExtras_def LoadRequest_def LoadURL_def Let_def
        GetBrowserHostBase_def SendToRenderFrame_fields split: option.splits)

theorem LoadURLWithExtras_routes_witness:
  "GetFrameId (frame (new_world example_main)) = kMainFrameId
   \<and> LoadURL True example_collaborators ''https://example.com'' (new_world example_main) =
       (new_world example_main)
         \<lparr>browser_calls :=
            [LoadMainFrameURL
               \<lparr>open_url = ''https://example.com'',
                open_referrer = Referrer_default,
                open_disposition = CURRENT_TAB,
                open_transition = kPageTransitionExplicit,
                open_is_renderer_initiated = False,
                open_extra_headers = []\<rparr>]\<rparr>
   \<and> kMainFrameId < GetFrameId (frame example_attached_child)
   \<and> LoadURL True example_collaborators ''https://example.com'' example_attached_child =
       example_attached_child
         \<lparr>peer_calls :=
            [((5, 9), render_frame_LoadRequest
                \<lparr>params_url = ''https://example.com'', params_referrer = Referrer_default,
                 params_headers = []\<rparr>)],
          browser_calls := [OnSetFocus FOCUS_SOURCE_NAVIGATION]\<rparr>
   \<and> GetFrameId (frame (new_world (CefFrameHostImpl_new example_info False 21474836487)))
       < kMainFrameId
   \<and> LoadURL True example_collaborators ''https://example.com''
         (new_world (CefFrameHostImpl_new example_info False 21474836487)) =
       new_world (CefFrameHostImpl_new example_info False 21474836487)"
proof -
  have a: "GetFrameId (frame (new_world example_main)) = kMainFrameId"
    by (simp add: GetFrameId_def new_world_def example_main_def)
  have b: "kMainFrameId < GetFrameId (frame example_attached_child)"
    by (simp add: GetFrameId_def example_attached_child_eq example_child_def kMainFrameId_def)
  have c: "GetFrameId (frame (new_world (CefFrameHostImpl_new example_info False 21474836487)))
       < kMainFrameId"
    by (simp add: GetFrameId_def new_world_def CefFrameHostImpl_new_def kMainFrameId_def
          kInvalidFrameId_def)
  have s: "SendToRenderFrame True
             (render_frame_LoadRequest
                \<lparr>params_url = ''https://example.com'', params_referrer = Referrer_default,
                 params_headers = []\<rparr>) example_attached_child =
           example_attached_child
             \<lparr>peer_calls :=
                [((5, 9), render_frame_LoadRequest
                    \<lparr>params_url = ''https://example.com'', params_referrer = Referrer_default,
                     params_headers = []\<rparr>)]\<rparr>"
    by (simp add: SendToRenderFrame_def example_attached_child_eq example_child_def
          GetRenderFrame_def Let_def)
  have g1: "GetBrowserHostBase (frame (new_world example_main)) = Some 1"
    by (simp add: GetBrowserHostBase_def new_world_def example_main_def example_info_def)
  have g2: "GetBrowserHostBase (frame example_attached_child) = Some 1"
    by (simp add: GetBrowserHostBase_def example_attached_child_eq example_child_def
          example_info_def)
  have f: "url_util_FixupGURL example_collaborators ''https://example.com'' =
           Some ''https://example.com''"
    "url_util_MakeGURL example_collaborators ''https://example.com'' False = ''https://example.com''"
    by (simp_all add: example_collaborators_def)
  have p0: "browser_calls (new_world example_main) = []"
    "browser_calls example_attached_child = []"
    by (simp_all add: new_world_def example_attached_child_eq)
  show ?thesis
    using LoadURLWithExtras_routes [of "new_world example_main" True example_collaborators
        "''https://example.com''" Referrer_default kPageTransitionExplicit "[]"]
      LoadURLWithExtras_routes [of example_attached_child True example_collaborators
        "''https://example.com''" Referrer_default kPageTransitionExplicit "[]"]
      LoadURLWithExtras_routes [of
        "new_world (CefFrameHostImpl_new example_info False 21474836487)" True
        example_collaborators "''https://example.com''" Referrer_default
        kPageTransitionExplicit "[]"]
      a b c
    by (simp add: s g1 g2 f p0)
qed

text \<open>
  Claim C5 as stated fails twice. A main-frame handle that has been detached makes no
  \<^verbatim>\<open>LoadMainFrameURL\<close> call; and on an attached sub-frame with a resolved peer, a URL that
  the fixup refuses reaches neither the peer nor the browser.
\<close>

theorem LoadURL_always_routed_counterexample:
  "GetFrameId (Detach example_main) = kMainFrameId
   \<and> LoadURL True example_collaborators ''https://example.com''
        ((new_world example_main)\<lparr>frame := Detach example_main\<rparr>) =
      (new_world example_main)\<lparr>frame := Detach example_main\<rparr>
   \<and> browser_calls ((new_world example_main)\<lparr>frame := Detach example_main\<rparr>) = []
   \<and> kMainFrameId < GetFrameId (frame example_attached_child)
   \<and> LoadURL True example_collaborators [] example_attached_child = example_attached_child
   \<and> peer_calls example_attached_child = []"
  by (simp add: LoadURL_def LoadURLWithExtras_def LoadRequest_def Let_def GetFrameId_def
        Detach_eq example_main_def GetBrowserHostBase_def new_world_def kMainFrameId_def
        example_attached_child_eq example_child_def example_collaborators_def)

subsection \<open>Script execution\<close>

text \<open>
  Claim C6. \<^verbatim>\<open>SendJavaScript\<close> (and \<^verbatim>\<open>ExecuteJavaScript\<close>, which calls it) does nothing
  for an empty script. For a non-empty script it passes the script to
  \<^verbatim>\<open>SendToRenderFrame\<close> with start line 1 when the given start line is at most 0, and with
  the given start line when that is positive; on an attached handle with a bound peer that
  is the start line the peer receives.
\<close>

theorem SendJavaScript_start_line:
  "(jsCode = [] \<longrightarrow> SendJavaScript on_uit jsCode scriptUrl startLine w = w)
   \<and> (jsCode \<noteq> [] \<and> startLine \<le> 0 \<longrightarrow>
        SendJavaScript on_uit jsCode scriptUrl startLine w =
          SendToRenderFrame on_uit (render_frame_SendJavaScript jsCode scriptUrl 1) w)
   \<and> (jsCode \<noteq> [] \<and> 0 < startLine \<longrightarrow>
        SendJavaScript on_uit jsCode scriptUrl startLine w =
          SendToRenderFrame on_uit (render_frame_SendJavaScript jsCode scriptUrl startLine) w)
   \<and> ExecuteJavaScript on_uit jsCode scriptUrl startLine w =
        SendJavaScript on_uit jsCode scriptUrl startLine w
   \<and> (\<forall>remote. jsCode \<noteq> [] \<and> is_attached (frame w) \<and> render_frame_host (frame w) \<noteq> None
          \<and> render_frame (frame w) = Some remote \<longrightarrow>
        peer_calls (SendJavaScript True jsCode scriptUrl startLine w) =
          peer_calls w @
            [(remote, render_frame_SendJavaScript jsCode scriptUrl
                        (if startLine \<le> 0 then 1 else startLine))])"
  by (auto simp: SendJavaScript_def ExecuteJavaScript_def SendToRenderFrame_def Let_def
        GetRenderFrame_def split: option.splits)

theorem SendJavaScript_start_line_witness:
  "SendJavaScript True [] ''app.js'' 7 example_attached_child = example_attached_child
   \<and> peer_calls (SendJavaScript True ''f()'' ''app.js'' 0 example_attached_child) =
        [((5, 9), render_frame_SendJavaScript ''f()'' ''app.js'' 1)]
   \<and> peer_calls (SendJavaScript True ''f()'' ''app.js'' (- 3) example_attached_child) =
        [((5, 9), render_frame_SendJavaScript ''f()'' ''app.js'' 1)]
   \<and> peer_calls (SendJavaScript True ''f()'' ''app.js'' 7 example_attached_child) =
        [((5, 9), render_frame_SendJavaScript ''f()'' ''app.js'' 7)]"
proof -
  have s: "\<And>line. SendToRenderFrame True (render_frame_SendJavaScript ''f()'' ''app.js'' line)
             example_attached_child =
           example_attached_child
             \<lparr>peer_calls := [((5, 9), render_frame_SendJavaScript ''f()'' ''app.js'' line)]\<rparr>"
    by (simp add: SendToRenderFrame_def example_attached_child_eq example_child_def
          GetRenderFrame_def Let_def)
  show ?thesis
    using SendJavaScript_start_line [of "[]" True "''app.js''" 7 example_attached_child]
      SendJavaScript_start_line [of "''f()''" True "''app.js''" 0 example_attached_child]
      SendJavaScript_start_line [of "''f()''" True "''app.js''" "- 3" example_attached_child]
      SendJavaScript_start_line [of "''f()''" True "''app.js''" 7 example_attached_child]
    by (simp add: s)
qed

subsection \<open>Load notifications\<close>

text \<open>
  Claim C8, as amended. The notification that is held back in a same-process subtree is
  the one \<^verbatim>\<open>MaybeSendDidStopLoading\<close> sends to the peer, not one to the owning browser:
  with no frame host, or with a frame host whose parent is in the same process, it does
  nothing; with a frame host whose parent is in another process, or that has no parent, it
  passes \<^verbatim>\<open>DidStopLoading\<close> to \<^verbatim>\<open>SendToRenderFrame\<close>; it never calls the browser.
  \<^verbatim>\<open>DidFinishFrameLoad\<close> calls \<^verbatim>\<open>OnDidFinishLoad\<close> on the owning browser whenever that is
  live, whatever the parent of the frame.
\<close>

theorem MaybeSendDidStopLoading_gate:
  "(render_frame_host (frame w) = None \<longrightarrow> MaybeSendDidStopLoading on_uit w = w)
   \<and> (\<forall>rfh p. render_frame_host (frame w) = Some rfh \<and> GetParent rfh = Some p
          \<and> GetProcessID p = GetProcessID rfh \<longrightarrow>
        MaybeSendDidStopLoading on_uit w = w)
   \<and> (\<forall>rfh p. render_frame_host (frame w) = Some rfh \<and> GetParent rfh = Some p
          \<and> GetProcessID p \<noteq> GetProcessID rfh \<longrightarrow>
        MaybeSendDidStopLoading on_uit w = SendToRenderFrame on_uit render_frame_DidStopLoading w)
   \<and> (\<forall>rfh. render_frame_host (frame w) = Some rfh \<and> GetParent rfh = None \<longrightarrow>
        MaybeSendDidStopLoading on_uit w = SendToRenderFrame on_uit render_frame_DidStopLoading w)
   \<and> browser_calls (MaybeSendDidStopLoading on_uit w) = browser_calls w
   \<and> (\<forall>b. GetBrowserHostBase (frame w) = Some b \<longrightarrow>
        DidFinishFrameLoad validated_url http_status_code w =
          w\<lparr>browser_calls := browser_calls w @ [OnDidFinishLoad validated_url http_status_code]\<rparr>)
   \<and> (GetBrowserHostBase (frame w) = None \<longrightarrow>
        DidFinishFrameLoad validated_url http_status_code w = w)"
  by (auto simp: MaybeSendDidStopLoading_def GetRenderFrameHost_def DidFinishFrameLoad_def
        SendToRenderFrame_fields split: option.splits)

theorem MaybeSendDidStopLoading_gate_witness:
  "render_frame_host (frame example_attached_child) = Some example_child_host
   \<and> GetParent example_child_host = Some example_main_host
   \<and> GetProcessID example_main_host = GetProcessID example_child_host
   \<and> MaybeSendDidStopLoading True example_attached_child = example_attached_child
   \<and> render_frame_host (frame (new_world example_remote_child)) = Some example_remote_child_host
   \<and> GetParent example_remote_child_host = Some example_main_host
   \<and> GetProcessID example_main_host \<noteq> GetProcessID example_remote_child_host
   \<and> MaybeSendDidStopLoading True (new_world example_remote_child) =
        SendToRenderFrame True render_frame_DidStopLoading (new_world example_remote_child)
   \<and> queued_actions (frame (MaybeSendDidStopLoading True (new_world example_remote_child))) =
        [render_frame_DidStopLoading]
   \<and> GetBrowserHostBase (frame example_attached_child) = Some 1
   \<and> DidFinishFrameLoad ''https://example.com/child'' 200 example_attached_child =
        example_attached_child
          \<lparr>browser_calls := [OnDidFinishLoad ''https://example.com/child'' 200]\<rparr>"
proof -
  have a: "render_frame_host (frame example_attached_child) = Some example_child_host"
    "GetParent example_child_host = Some example_main_host"
    "GetProcessID example_main_host = GetProcessID example_child_host"
    by (simp_all add: example_attached_child_eq example_child_def example_child_host_def
          example_main_host_def)
  have b: "render_frame_host (frame (new_world example_remote_child)) =
             Some example_remote_child_host"
    "GetParent example_remote_child_host = Some example_main_host"
    "GetProcessID example_main_host \<noteq> GetProcessID example_remote_child_host"
    by (simp_all add: new_world_def example_remote_child_def example_remote_child_host_def
          example_main_host_def)
  have q: "queued_actions (frame (SendToRenderFrame True render_frame_DidStopLoading
             (new_world example_remote_child))) = [render_frame_DidStopLoading]"
    by (simp add: SendToRenderFrame_def new_world_def example_remote_child_def)
  have g: "GetBrowserHostBase (frame example_attached_child) = Some 1"
    "browser_calls example_attached_child = []"
    by (simp_all add: GetBrowserHostBase_def example_attached_child_eq example_child_def
          example_info_def)
  show ?thesis
    using MaybeSendDidStopLoading_gate [of example_attached_child True
        "''https://example.com/child''" 200]
      MaybeSendDidStopLoading_gate [of "new_world example_remote_child" True
        "''https://example.com/child''" 200]
      a b q g
    by simp
qed

text \<open>
  Claim C8 as stated fails: for a child frame in its parent's process the load-finish
  notification still reaches the owning browser, through \<^verbatim>\<open>DidFinishFrameLoad\<close>; and what
  \<^verbatim>\<open>MaybeSendDidStopLoading\<close> lets through for a child in another process goes to the peer
  and makes no call on the browser.
\<close>

theorem load_finish_gate_counterexample:
  "render_frame_host (frame example_attached_child) = Some example_child_host
   \<and> GetParent example_child_host = Some example_main_host
   \<and> GetProcessID example_main_host = GetProcessID example_child_host
   \<and> browser_calls (DidFinishFrameLoad ''https://example.com/child'' 200 example_attached_child) =
        [OnDidFinishLoad ''https://example.com/child'' 200]
   \<and> GetParent example_remote_child_host = Some example_main_host
   \<and> GetProcessID example_main_host \<noteq> GetProcessID example_remote_child_host
   \<and> browser_calls (MaybeSendDidStopLoading True
        (FrameAttached (new_world example_remote_child))) = []
   \<and> peer_calls (MaybeSendDidStopLoading True
        (FrameAttached (new_world example_remote_child))) = [((6, 2), render_frame_DidStopLoading)]"
  by (simp add: example_attached_child_eq example_child_def example_child_host_def
        example_main_host_def DidFinishFrameLoad_def GetBrowserHostBase_def example_info_def
        MaybeSendDidStopLoading_def GetRenderFrameHost_def FrameAttached_def Let_def
        new_world_def example_remote_child_def example_remote_child_host_def
        GetRenderFrame_def drain_queued_actions_eq SendToRenderFrame_def)

subsection \<open>An attached handle whose peer does not resolve\<close>

text \<open>
  Claim C9. On an attached handle with a frame host bound, when the peer connection is not
  bound and the frame host has no interface provider to bind it through, an action passed
  to \<^verbatim>\<open>SendToRenderFrame\<close> on the UI thread leaves the whole state as it was: it is not
  queued, not run, not kept for later, and nothing tells the caller. From any thread the
  handle and the calls made on the peer and on the browser are unchanged, and a re-posted
  call of the action, once run, is dropped the same way.
\<close>

theorem unresolved_action_dropped:
  assumes "is_attached (frame w)"
    and "render_frame_host (frame w) = Some host"
    and "render_frame (frame w) = None"
    and "\<not> GetRemoteInterfaces host"
  shows "SendToRenderFrame True action w = w
       \<and> frame (SendToRenderFrame on_uit action w) = frame w
       \<and> peer_calls (SendToRenderFrame on_uit action w) = peer_calls w
       \<and> browser_calls (SendToRenderFrame on_uit action w) = browser_calls w
       \<and> RunPostedTask (w\<lparr>ui_tasks := [action]\<rparr>) = w\<lparr>ui_tasks := []\<rparr>"
  using assms
  by (simp add: SendToRenderFrame_def GetRenderFrame_def Let_def RunPostedTask_def)

theorem unresolved_action_dropped_witness:
  "is_attached (frame (FrameAttached (new_world example_unbindable)))
   \<and> render_frame_host (frame (FrameAttached (new_world example_unbindable))) =
       Some example_unbindable_host
   \<and> render_frame (frame (FrameAttached (new_world example_unbindable))) = None
   \<and> \<not> GetRemoteInterfaces example_unbindable_host
   \<and> SendToRenderFrame True (render_frame_SendCommand ''Copy'')
        (FrameAttached (new_world example_unbindable)) =
       FrameAttached (new_world example_unbindable)
   \<and> queued_actions (frame (FrameAttached (new_world example_unbindable))) = []
   \<and> peer_calls (FrameAttached (new_world example_unbindable)) = []"
proof -
  have h: "is_attached (frame (FrameAttached (new_world example_unbindable)))"
    "render_frame_host (frame (FrameAttached (new_world example_unbindable))) =
       Some example_unbindable_host"
    "render_frame (frame (FrameAttached (new_world example_unbindable))) = None"
    "\<not> GetRemoteInterfaces example_unbindable_host"
    by (simp_all add: example_unbindable_attached)
       (simp_all add: example_unbindable_def example_unbindable_host_def)
  have e: "queued_actions (frame (FrameAttached (new_world example_unbindable))) = []"
    "peer_calls (FrameAttached (new_world example_unbindable)) = []"
    by (simp_all add: example_unbindable_attached)
       (simp_all add: example_unbindable_def new_world_def)
  show ?thesis
    using unresolved_action_dropped [OF h, of "render_frame_SendCommand ''Copy''" True] h e
    by simp
qed

end
